theory Spec2Isabelle
  imports Main
begin

section \<open>Strings and formatting\<close>

text \<open>
  A Go string is a sequence of bytes, modelled as \<open>string\<close> (a list of 8-bit characters).
  The three SQL templates and every dialect word are ASCII, where bytes and runes coincide.
\<close>

text \<open>
  The decimal rendering of the \<open>%d\<close> verb, for the counter \<open>varIndex\<close> and the random
  number: both are Go \<open>int\<close>s that are never negative and stay far below the 63 bits of
  the type, so they are natural numbers here. \<open>digit\<close> is only applied to numbers below
  ten.
\<close>

definition digit :: "nat \<Rightarrow> char" where
  "digit d = ''0123456789'' ! d"

fun fmt_d :: "nat \<Rightarrow> string" where
  "fmt_d n = (if n < 10 then [digit n] else fmt_d (n div 10) @ [digit (n mod 10)])"

declare fmt_d.simps [simp del]

text \<open>
  \<open>fmt.Sprintf\<close> for a format whose only verb is \<open>%s\<close>: each verb takes the next argument,
  a verb with no argument left prints Go's \<open>%!s(MISSING)\<close>, all other text is copied.
  Every call of the source passes as many arguments as the format has verbs.
\<close>

fun Sprintf :: "string \<Rightarrow> string list \<Rightarrow> string" where
  "Sprintf (a # b # fmt) args =
     (if a = CHR ''%'' \<and> b = CHR ''s'' then
        (case args of
           [] \<Rightarrow> ''%!s(MISSING)'' @ Sprintf fmt []
         | x # xs \<Rightarrow> x @ Sprintf fmt xs)
      else a # Sprintf (b # fmt) args)"
| "Sprintf fmt args = fmt"

text \<open>
  \<open>strings.ToLower\<close>. ASCII capitals are lowered byte by byte. Two runes outside ASCII have
  an ASCII lower case and are therefore written out: U+0130 (bytes C4 B0) lowers to \<open>i\<close>
  and U+212A (bytes E2 84 AA) lowers to \<open>k\<close>. Every other rune outside ASCII lowers to a
  rune outside ASCII; the model keeps its bytes, which is all the comparison with the ASCII
  dialect words can observe.
\<close>

definition lower_byte :: "char \<Rightarrow> char" where
  "lower_byte c =
     (case map_of (zip ''ABCDEFGHIJKLMNOPQRSTUVWXYZ'' ''abcdefghijklmnopqrstuvwxyz'') c of
        None \<Rightarrow> c
      | Some l \<Rightarrow> l)"

fun ToLower :: "string \<Rightarrow> string" where
  "ToLower (a # b # c # cs) =
     (if [a, b, c] = [CHR 0xE2, CHR 0x84, CHR 0xAA] then CHR ''k'' # ToLower cs
      else if [a, b] = [CHR 0xC4, CHR 0xB0] then CHR ''i'' # ToLower (c # cs)
      else lower_byte a # ToLower (b # c # cs))"
| "ToLower [a, b] =
     (if [a, b] = [CHR 0xC4, CHR 0xB0] then [CHR ''i''] else [lower_byte a, lower_byte b])"
| "ToLower [a] = [lower_byte a]"
| "ToLower [] = []"

section \<open>Errors, fatal exits and the statement templates\<close>

datatype error =
    UnknownDatabaseType string
  | DriverError string
  | RequestError string

text \<open>
  \<open>log.Fatalln\<close> prints its message and ends the process. A call that may do so returns an
  \<open>outcome\<close>: \<open>Fatal\<close> with the message (and the error that \<open>boom\<close> was given), or the
  value the Go function returns.
\<close>

datatype 'a outcome =
    Fatal string "error option"
  | Returned 'a

text \<open>
  The three canonical templates. \<open>rawSetup\<close> and \<open>rawInsert\<close> are raw string literals that
  span several source lines: each line break is a newline followed by the two tabs that
  indent the continuation line.
\<close>

definition line_break :: string where
  "line_break = [CHR 0x0A, CHR 0x09, CHR 0x09]"

definition rawSetup :: string where
  "rawSetup =
     ''CREATE TABLE IF NOT EXISTS barcodes('' @ line_break @
     ''id      %s          PRIMARY KEY,'' @ line_break @
     ''barcode varchar(50) NOT NULL UNIQUE,'' @ line_break @
     ''isbn    text        NOT NULL,'' @ line_break @
     ''author  text        NOT NULL,'' @ line_break @
     ''title   text        NOT NULL);''"

definition rawLookup :: string where
  "rawLookup = ''SELECT isbn,author,title FROM barcodes WHERE barcode=(?);''"

definition rawInsert :: string where
  "rawInsert =
     ''INSERT INTO barcodes(barcode,isbn,author,title)'' @ line_break @
     ''SELECT ?,?,?,?'' @ line_break @
     ''WHERE NOT EXISTS (SELECT * FROM barcodes WHERE barcode=(?));''"

text \<open>
  \<open>strings.Builder\<close>: the text written so far. \<open>WriteString\<close> and \<open>WriteRune\<close> return an
  error value that the source checks; the Go library always returns \<open>nil\<close> there.
\<close>

definition WriteString :: "string \<Rightarrow> string \<Rightarrow> error + string" where
  "WriteString builder s = Inr (builder @ s)"

definition WriteRune :: "string \<Rightarrow> char \<Rightarrow> error + string" where
  "WriteRune builder r = Inr (builder @ [r])"

text \<open>
  The closure \<open>varReplace\<close> of \<open>InitProcedures\<close>: the loop over the runes of \<open>src\<close>, with
  the builder and the counter \<open>varIndex\<close> as loop state.
\<close>

fun varReplace_loop :: "string \<Rightarrow> string \<Rightarrow> nat \<Rightarrow> string \<Rightarrow> error + string" where
  "varReplace_loop [] varPrefix varIndex builder = Inr builder"
| "varReplace_loop (r # src) varPrefix varIndex builder =
     (if r = CHR ''?'' then
        (case WriteString builder (varPrefix @ fmt_d varIndex) of
           Inl err \<Rightarrow> Inl err
         | Inr builder' \<Rightarrow> varReplace_loop src varPrefix (varIndex + 1) builder')
      else
        (case WriteRune builder r of
           Inl err \<Rightarrow> Inl err
         | Inr builder' \<Rightarrow> varReplace_loop src varPrefix varIndex builder'))"

definition varReplace :: "string \<Rightarrow> string \<Rightarrow> error + string" where
  "varReplace src varPrefix = varReplace_loop src varPrefix 1 []"

section \<open>The database behind the shim\<close>

text \<open>
  The database engine is reached through \<open>database/sql\<close> and is no part of the repository.
  Its model holds the rows of the table \<open>barcodes\<close> and understands exactly the two
  statements the shim sends at run time, each in the placeholder syntax its engine accepts
  (MySQL the generic marker, PostgreSQL the numbered one, SQLite both). \<open>refuses\<close> stands
  for every other reason an engine has to answer a request with an error (a lost
  connection, a read-only file, a value longer than the column): it gives the error text
  for a statement and its arguments. A query that is not refused can still fail later,
  while its rows are read: \<open>read_fails\<close> gives the number of rows that are read before
  the error, and the error text.
\<close>

datatype engine = MySQL | Postgres | SQLite

record row =
  row_id :: nat
  barcode :: string
  isbn :: string
  author :: string
  title :: string

record database =
  kind :: engine
  barcodes :: "row list"
  refuses :: "string \<Rightarrow> string list \<Rightarrow> string option"
  read_fails :: "string \<Rightarrow> string list \<Rightarrow> (nat \<times> string) option"

datatype statement = SelectByBarcode | InsertIfAbsent

definition positionalLookup :: string where
  "positionalLookup = ''SELECT isbn,author,title FROM barcodes WHERE barcode=($1);''"

definition positionalInsert :: string where
  "positionalInsert =
     ''INSERT INTO barcodes(barcode,isbn,author,title)'' @ line_break @
     ''SELECT $1,$2,$3,$4'' @ line_break @
     ''WHERE NOT EXISTS (SELECT * FROM barcodes WHERE barcode=($5));''"

definition parse_sql :: "engine \<Rightarrow> string \<Rightarrow> statement option" where
  "parse_sql e stmt =
     (if (stmt = rawLookup \<and> e \<noteq> Postgres) \<or> (stmt = positionalLookup \<and> e \<noteq> MySQL)
        then Some SelectByBarcode
      else if (stmt = rawInsert \<and> e \<noteq> Postgres) \<or> (stmt = positionalInsert \<and> e \<noteq> MySQL)
        then Some InsertIfAbsent
      else None)"

text \<open>
  \<open>db.Query\<close> returns an error or the handle \<open>*sql.Rows\<close>. The handle is modelled by the
  rows still to be read, one list of columns per row (a column being \<open>None\<close> when it is
  NULL; the table declares every column NOT NULL), and by the error that ends the reading
  after them, if there is one. \<open>rows.Next\<close> gives the next row and the handle behind it; it
  is false (\<open>None\<close>) when no row is left, at the end of the result as well as on an error.
  The two cases differ in \<open>rows.Err\<close> only.
\<close>

record Rows =
  unread :: "string option list list"
  Err :: "string option"

definition Next :: "Rows \<Rightarrow> (string option list \<times> Rows) option" where
  "Next rows =
     (case unread rows of
        [] \<Rightarrow> None
      | cols # rest \<Rightarrow> Some (cols, rows\<lparr>unread := rest\<rparr>))"

definition columns :: "row \<Rightarrow> string option list" where
  "columns r = [Some (isbn r), Some (author r), Some (title r)]"

definition db_Query :: "database \<Rightarrow> string \<Rightarrow> string list \<Rightarrow> error + Rows" where
  "db_Query d stmt args =
     (case refuses d stmt args of
        Some msg \<Rightarrow> Inl (DriverError msg)
      | None \<Rightarrow>
          (case (parse_sql (kind d) stmt, args) of
             (Some SelectByBarcode, [b]) \<Rightarrow>
               (let found = map columns (filter (\<lambda>r. barcode r = b) (barcodes d))
                in case read_fails d stmt args of
                     None \<Rightarrow> Inr \<lparr>unread = found, Err = None\<rparr>
                   | Some (n, msg) \<Rightarrow> Inr \<lparr>unread = take n found, Err = Some msg\<rparr>)
           | _ \<Rightarrow> Inl (DriverError ''statement not understood'')))"

text \<open>
  The insert statement selects its first four arguments as a new row where no row has the
  fifth argument as its barcode. The column \<open>barcode\<close> is UNIQUE, and the engine assigns
  the primary key: the model takes one above the largest key in use, which is what the
  engines do below the largest key of the column type.
\<close>

definition fresh_id :: "row list \<Rightarrow> nat" where
  "fresh_id rs = Suc (fold max (map row_id rs) 0)"

definition db_Exec :: "database \<Rightarrow> string \<Rightarrow> string list \<Rightarrow> error + database" where
  "db_Exec d stmt args =
     (case refuses d stmt args of
        Some msg \<Rightarrow> Inl (DriverError msg)
      | None \<Rightarrow>
          (case (parse_sql (kind d) stmt, args) of
             (Some InsertIfAbsent, [b, i, a, t, k]) \<Rightarrow>
               if \<exists>r \<in> set (barcodes d). barcode r = k then Inr d
               else if \<exists>r \<in> set (barcodes d). barcode r = b
                 then Inl (DriverError ''UNIQUE constraint failed'')
               else Inr (d\<lparr>barcodes := barcodes d @
                      [\<lparr>row_id = fresh_id (barcodes d), barcode = b, isbn = i,
                        author = a, title = t\<rparr>]\<rparr>)
           | _ \<Rightarrow> Inl (DriverError ''statement not understood'')))"

section \<open>SQLShim\<close>

record BarcodeItem =
  Barcode :: string
  ISBN :: string
  Author :: string
  Title :: string

text \<open>
  The struct \<open>SQLShim\<close>: its three statements (the zero value of each is the empty string)
  and the database handle, \<open>None\<close> for \<open>nil\<close>. \<open>SetupDatabase\<close> and the \<open>Startup\<close> and
  \<open>Shutdown\<close> methods of the servers open the database, create the table and close the
  handle; what follows starts from a shim and a server as they are between the two.
\<close>

record SQLShim =
  setup_sql :: string
  lookup_sql :: string
  insert_sql :: string
  db :: "database option"

text \<open>
  \<open>InitProcedures\<close> returns its error value together with the shim as the call leaves it.
  The \<open>switch\<close> either returns the error at once or fixes \<open>idInfo\<close> and \<open>varPrefix\<close>.
\<close>

definition InitProcedures :: "string \<Rightarrow> SQLShim \<Rightarrow> (error option \<times> SQLShim) outcome" where
  "InitProcedures dbType s =
     (if dbType = [] then Fatal ''Database type is empty!'' None
      else
        (case (let idInfo = ''int GENERATED BY DEFAULT AS IDENTITY'';
                   varPrefix = [];
                   t = ToLower dbType
               in if t = ''mysql'' then Inr (''int AUTO_INCREMENT'', varPrefix)
                  else if t = ''sqlite'' then Inr (''integer'', varPrefix)
                  else if t = ''postgres'' then Inr (idInfo, ''$'')
                  else Inl (UnknownDatabaseType dbType)) of
           Inl err \<Rightarrow> Returned (Some err, s)
         | Inr (idInfo, varPrefix) \<Rightarrow>
             (let s1 = s\<lparr>setup_sql := Sprintf rawSetup [idInfo]\<rparr>;
                  s2 = s1\<lparr>lookup_sql := rawLookup, insert_sql := rawInsert\<rparr>
              in if varPrefix \<noteq> [] then
                   (case varReplace rawLookup varPrefix of
                      Inl err \<Rightarrow> Returned (Some err, s2)
                    | Inr lookup' \<Rightarrow>
                        (case varReplace rawInsert varPrefix of
                           Inl err \<Rightarrow> Returned (Some err, s2)
                         | Inr insert' \<Rightarrow>
                             Returned (None, s2\<lparr>lookup_sql := lookup', insert_sql := insert'\<rparr>)))
                 else Returned (None, s2))))"

text \<open>
  \<open>rows.Scan\<close> into the three string fields: it fails on a result row that has not three
  columns or has a NULL among them.
\<close>

definition Scan :: "string option list \<Rightarrow> error + string \<times> string \<times> string" where
  "Scan cols =
     (case cols of
        [Some a, Some b, Some c] \<Rightarrow> Inr (a, b, c)
      | _ \<Rightarrow> Inl (DriverError ''Scan failed''))"

text \<open>
  \<open>SQLShim.Lookup\<close> returns the pair \<open>(item, err)\<close>, of which at most one is not \<open>nil\<close>:
  \<open>Inl err\<close> for \<open>(nil, err)\<close>, \<open>Inr None\<close> for \<open>(nil, nil)\<close> and \<open>Inr (Some item)\<close> for
  \<open>(&tmp, nil)\<close>. The loop over the result rows returns in its first round. Where
  \<open>rows.Next\<close> is false at once the loop is not entered and the method returns
  \<open>(nil, nil)\<close>; it does not read \<open>rows.Err\<close>.
\<close>

definition SQLShim_Lookup :: "SQLShim \<Rightarrow> string \<Rightarrow> (error + BarcodeItem option) outcome" where
  "SQLShim_Lookup s barcode' =
     (case db s of
        None \<Rightarrow> Fatal ''Database is nil!'' None
      | Some d \<Rightarrow>
          if barcode' = [] then Fatal ''Empty barcode!'' None
          else
            (case db_Query d (lookup_sql s) [barcode'] of
               Inl err \<Rightarrow> Returned (Inl err)
             | Inr rows \<Rightarrow>
                 (case Next rows of
                    None \<Rightarrow> Returned (Inr None)
                  | Some (cols, _) \<Rightarrow>
                      (let tmp = \<lparr>Barcode = barcode', ISBN = [], Author = [], Title = []\<rparr>
                       in case Scan cols of
                            Inl err \<Rightarrow> Returned (Inl err)
                          | Inr (a, b, c) \<Rightarrow>
                              Returned (Inr (Some (tmp\<lparr>ISBN := a, Author := b,
                                                       Title := c\<rparr>)))))))"

text \<open>
  \<open>SQLShim.Store\<close> takes a pointer to the item (\<open>None\<close> for \<open>nil\<close>) and returns the error of
  \<open>Exec\<close>; the shim it leaves holds the database as the statement changed it.
\<close>

definition SQLShim_Store :: "SQLShim \<Rightarrow> BarcodeItem option \<Rightarrow> (error option \<times> SQLShim) outcome" where
  "SQLShim_Store s item =
     (case db s of
        None \<Rightarrow> Fatal ''Database is nil!'' None
      | Some d \<Rightarrow>
          (case item of
             None \<Rightarrow> Fatal ''Item is nil!'' None
           | Some it \<Rightarrow>
               if Barcode it = [] then Fatal ''Barcode is empty!'' None
               else
                 (case db_Exec d (insert_sql s)
                         [Barcode it, ISBN it, Author it, Title it, Barcode it] of
                    Inl err \<Rightarrow> Returned (Some err, s)
                  | Inr d' \<Rightarrow> Returned (None, s\<lparr>db := Some d'\<rparr>))))"

section \<open>The barcode servers\<close>

text \<open>\<open>boom\<close>: a non-nil error ends the process with the message and the error.\<close>

definition boom :: "error option \<Rightarrow> string \<Rightarrow> unit outcome" where
  "boom e msg = (case e of Some err \<Rightarrow> Fatal msg (Some err) | None \<Rightarrow> Returned ())"

text \<open>
  What a request finds outside the process: the number the random generator draws next,
  the answer of the Alma web service to a key and a barcode, and whether writing to the
  HTTP response fails.
\<close>

datatype bib_data =
    NotAMap
  | BibMap "string option" "string option" "string option"

datatype alma_reply =
    NewRequestFailed string
  | DoFailed
  | Response nat "bib_data option"

record env =
  rand_source :: nat
  alma_service :: "string \<Rightarrow> string \<Rightarrow> alma_reply"
  writer_fails :: bool

definition Intn :: "env \<Rightarrow> nat \<Rightarrow> nat" where
  "Intn e n = rand_source e mod n"

text \<open>
  The implementations of \<open>BarcodeServerInterface\<close>. The three SQL servers hold a shim, the
  Alma server its API key, the random server nothing.
\<close>

datatype server =
    SQLiteServer SQLShim
  | PostgresServer SQLShim
  | MySQLServer SQLShim
  | RandomServer
  | AlmaServer string

definition SQLiteServer_Lookup :: "SQLShim \<Rightarrow> string \<Rightarrow> BarcodeItem option outcome" where
  "SQLiteServer_Lookup shim barcode' =
     (case SQLShim_Lookup shim barcode' of
        Fatal msg e \<Rightarrow> Fatal msg e
      | Returned (Inl err) \<Rightarrow>
          (case boom (Some err) ''Unable to lookup item'' of
             Fatal msg e \<Rightarrow> Fatal msg e
           | Returned _ \<Rightarrow> Returned None)
      | Returned (Inr result) \<Rightarrow>
          (case boom None ''Unable to lookup item'' of
             Fatal msg e \<Rightarrow> Fatal msg e
           | Returned _ \<Rightarrow> Returned result))"

definition PostgresServer_Lookup :: "SQLShim \<Rightarrow> string \<Rightarrow> BarcodeItem option outcome" where
  "PostgresServer_Lookup shim barcode' =
     (case SQLShim_Lookup shim barcode' of
        Fatal msg e \<Rightarrow> Fatal msg e
      | Returned (Inl err) \<Rightarrow>
          (case boom (Some err) ''Unable to lookup item'' of
             Fatal msg e \<Rightarrow> Fatal msg e
           | Returned _ \<Rightarrow> Returned None)
      | Returned (Inr result) \<Rightarrow>
          (case boom None ''Unable to lookup item'' of
             Fatal msg e \<Rightarrow> Fatal msg e
           | Returned _ \<Rightarrow> Returned result))"

definition MySQLServer_Lookup :: "SQLShim \<Rightarrow> string \<Rightarrow> BarcodeItem option outcome" where
  "MySQLServer_Lookup shim barcode' =
     (case SQLShim_Lookup shim barcode' of
        Fatal msg e \<Rightarrow> Fatal msg e
      | Returned (Inl err) \<Rightarrow>
          (case boom (Some err) ''Unable to lookup item'' of
             Fatal msg e \<Rightarrow> Fatal msg e
           | Returned _ \<Rightarrow> Returned None)
      | Returned (Inr result) \<Rightarrow>
          (case boom None ''Unable to lookup item'' of
             Fatal msg e \<Rightarrow> Fatal msg e
           | Returned _ \<Rightarrow> Returned result))"

text \<open>
  The three \<open>Store\<close> methods return nothing; the model returns the shim they leave.
  \<open>PostgresServer.Store\<close> prints the item to the log first, which changes no state.
\<close>

definition SQLiteServer_Store :: "SQLShim \<Rightarrow> BarcodeItem option \<Rightarrow> SQLShim outcome" where
  "SQLiteServer_Store shim item =
     (case SQLShim_Store shim item of
        Fatal msg e \<Rightarrow> Fatal msg e
      | Returned (err, shim') \<Rightarrow>
          (case boom err ''Unable to store item'' of
             Fatal msg e \<Rightarrow> Fatal msg e
           | Returned _ \<Rightarrow> Returned shim'))"

definition PostgresServer_Store :: "SQLShim \<Rightarrow> BarcodeItem option \<Rightarrow> SQLShim outcome" where
  "PostgresServer_Store shim item =
     (case SQLShim_Store shim item of
        Fatal msg e \<Rightarrow> Fatal msg e
      | Returned (err, shim') \<Rightarrow>
          (case boom err ''Unable to store item'' of
             Fatal msg e \<Rightarrow> Fatal msg e
           | Returned _ \<Rightarrow> Returned shim'))"

definition MySQLServer_Store :: "SQLShim \<Rightarrow> BarcodeItem option \<Rightarrow> SQLShim outcome" where
  "MySQLServer_Store shim item =
     (case SQLShim_Store shim item of
        Fatal msg e \<Rightarrow> Fatal msg e
      | Returned (err, shim') \<Rightarrow>
          (case boom err ''Unable to store item'' of
             Fatal msg e \<Rightarrow> Fatal msg e
           | Returned _ \<Rightarrow> Returned shim'))"

text \<open>\<open>RandomServer.Lookup\<close>: the given barcode, and one random number in the other fields.\<close>

definition RandomServer_Lookup :: "env \<Rightarrow> string \<Rightarrow> BarcodeItem option outcome" where
  "RandomServer_Lookup e barcode' =
     (let r = Intn e 1000000
      in Returned (Some \<lparr>Barcode = barcode', ISBN = ''ISBN'' @ fmt_d r,
                         Author = ''Author'' @ fmt_d r, Title = ''Title'' @ fmt_d r\<rparr>))"

text \<open>
  \<open>AlmaServer.Lookup\<close>, by the answer of the web service: the request cannot be built
  (\<open>boom\<close>), the request fails, the status is not 200, the decoded body has no \<open>bib_data\<close>,
  \<open>bib_data\<close> is no map, or it is a map, whose entries \<open>isbn\<close>, \<open>author\<close> and \<open>title\<close> are
  \<open>None\<close> where the key is missing or its value is no string.
\<close>

definition string_or_empty :: "string option \<Rightarrow> string" where
  "string_or_empty y = (case y of Some v \<Rightarrow> v | None \<Rightarrow> [])"

definition AlmaServer_Lookup :: "string \<Rightarrow> env \<Rightarrow> string \<Rightarrow> BarcodeItem option outcome" where
  "AlmaServer_Lookup key e barcode' =
     (case alma_service e key barcode' of
        NewRequestFailed msg \<Rightarrow> Fatal ''Unable to create HTTP request'' (Some (RequestError msg))
      | DoFailed \<Rightarrow> Returned None
      | Response code m \<Rightarrow>
          if code \<noteq> 200 then Returned None
          else
            (case m of
               None \<Rightarrow> Returned None
             | Some NotAMap \<Rightarrow> Returned None
             | Some (BibMap i a t) \<Rightarrow>
                 Returned (Some \<lparr>Barcode = barcode', ISBN = string_or_empty i,
                                  Author = string_or_empty a, Title = string_or_empty t\<rparr>)))"

text \<open>Calling a method through the interface runs the method of the implementation.\<close>

fun Lookup :: "env \<Rightarrow> server \<Rightarrow> string \<Rightarrow> BarcodeItem option outcome" where
  "Lookup e (SQLiteServer shim) barcode' = SQLiteServer_Lookup shim barcode'"
| "Lookup e (PostgresServer shim) barcode' = PostgresServer_Lookup shim barcode'"
| "Lookup e (MySQLServer shim) barcode' = MySQLServer_Lookup shim barcode'"
| "Lookup e RandomServer barcode' = RandomServer_Lookup e barcode'"
| "Lookup e (AlmaServer key) barcode' = AlmaServer_Lookup key e barcode'"

text \<open>\<open>Store\<close> on the random and the Alma server only writes a log line.\<close>

fun Store :: "server \<Rightarrow> BarcodeItem option \<Rightarrow> server outcome" where
  "Store (SQLiteServer shim) item =
     (case SQLiteServer_Store shim item of
        Fatal msg e \<Rightarrow> Fatal msg e | Returned shim' \<Rightarrow> Returned (SQLiteServer shim'))"
| "Store (PostgresServer shim) item =
     (case PostgresServer_Store shim item of
        Fatal msg e \<Rightarrow> Fatal msg e | Returned shim' \<Rightarrow> Returned (PostgresServer shim'))"
| "Store (MySQLServer shim) item =
     (case MySQLServer_Store shim item of
        Fatal msg e \<Rightarrow> Fatal msg e | Returned shim' \<Rightarrow> Returned (MySQLServer shim'))"
| "Store RandomServer item = Returned RandomServer"
| "Store (AlmaServer key) item = Returned (AlmaServer key)"

section \<open>The request handler\<close>

text \<open>
  \<open>barcodeHandler\<close> is given the barcode of the request path and the two servers
  (\<open>None\<close> for \<open>nil\<close>). The model returns the calls the handler made on the two servers,
  in order, and how the handler ended: the process ended by \<open>log.Fatalln\<close>, or the handler
  returned, with the item it wrote to the response as JSON (\<open>None\<close> when it wrote nothing)
  and the local server as it left it. Log lines other than the fatal ones are left out.
\<close>

datatype call =
    LocalLookup string
  | RemoteLookup string
  | LocalStore BarcodeItem

text \<open>The end of the handler: a result is encoded to the response, no result only logged.\<close>

definition write_result ::
  "env \<Rightarrow> BarcodeItem option \<Rightarrow> server \<Rightarrow> (BarcodeItem option \<times> server option) outcome" where
  "write_result e result localServer' =
     (case result of
        Some item \<Rightarrow>
          if writer_fails e then Fatal ''Unable to write to output'' None
          else Returned (Some item, Some localServer')
      | None \<Rightarrow> Returned (None, Some localServer'))"

definition barcodeHandler ::
  "env \<Rightarrow> string \<Rightarrow> server option \<Rightarrow> server option
     \<Rightarrow> call list \<times> (BarcodeItem option \<times> server option) outcome" where
  "barcodeHandler e barcode' localServer remoteServer =
     (case localServer of
        None \<Rightarrow> ([], Returned (None, None))
      | Some ls \<Rightarrow>
          if barcode' = [] then ([], Returned (None, Some ls))
          else
            (case Lookup e ls barcode' of
               Fatal msg err \<Rightarrow> ([LocalLookup barcode'], Fatal msg err)
             | Returned (Some item) \<Rightarrow> ([LocalLookup barcode'], write_result e (Some item) ls)
             | Returned None \<Rightarrow>
                 (case remoteServer of
                    None \<Rightarrow> ([LocalLookup barcode'], write_result e None ls)
                  | Some rs \<Rightarrow>
                      (case Lookup e rs barcode' of
                         Fatal msg err \<Rightarrow>
                           ([LocalLookup barcode', RemoteLookup barcode'], Fatal msg err)
                       | Returned None \<Rightarrow>
                           ([LocalLookup barcode', RemoteLookup barcode'],
                            write_result e None ls)
                       | Returned (Some item) \<Rightarrow>
                           (case Store ls (Some item) of
                              Fatal msg err \<Rightarrow>
                                ([LocalLookup barcode', RemoteLookup barcode',
                                  LocalStore item], Fatal msg err)
                            | Returned ls' \<Rightarrow>
                                ([LocalLookup barcode', RemoteLookup barcode',
                                  LocalStore item], write_result e (Some item) ls'))))))"

section \<open>Notions the properties are stated with\<close>

text \<open>
  The placeholder rewriting, in the words of its description: a statement is cut into the
  pieces between its generic markers, and the pieces are joined again with one marker
  between two neighbours, the marker being a function of its position counted from the
  left.
\<close>

fun pieces :: "string \<Rightarrow> string list" where
  "pieces [] = [[]]"
| "pieces (c # cs) =
     (if c = CHR ''?'' then [] # pieces cs
      else (case pieces cs of [] \<Rightarrow> [[c]] | p # ps \<Rightarrow> (c # p) # ps))"

fun weave :: "(nat \<Rightarrow> string) \<Rightarrow> nat \<Rightarrow> string list \<Rightarrow> string" where
  "weave m n [] = []"
| "weave m n [seg] = seg"
| "weave m n (seg # segs) = seg @ m n @ weave m (Suc n) segs"

text \<open>
  What a caller can observe of one run of \<open>InitProcedures\<close>: the process ended, an error
  came back, or the three statements were compiled.
\<close>

datatype compilation =
    Aborted string
  | Failed error
  | Profile string string string

definition compiled :: "(error option \<times> SQLShim) outcome \<Rightarrow> compilation" where
  "compiled r =
     (case r of
        Fatal msg _ \<Rightarrow> Aborted msg
      | Returned (Some err, _) \<Rightarrow> Failed err
      | Returned (None, s) \<Rightarrow> Profile (setup_sql s) (lookup_sql s) (insert_sql s))"

fun aborts :: "'a outcome \<Rightarrow> bool" where
  "aborts (Fatal msg err) = True"
| "aborts (Returned v) = False"

text \<open>The number of times a run of the handler called the remote server.\<close>

fun is_remote :: "call \<Rightarrow> bool" where
  "is_remote (RemoteLookup k) = True"
| "is_remote (LocalLookup k) = False"
| "is_remote (LocalStore item) = False"

definition remote_calls :: "call list \<Rightarrow> nat" where
  "remote_calls cs = length (filter is_remote cs)"


section \<open>Concrete servers and requests\<close>

text \<open>The zero value of \<open>SQLShim\<close>, as a server holds it before \<open>Startup\<close>.\<close>

definition zero_shim :: SQLShim where
  "zero_shim = \<lparr>setup_sql = [], lookup_sql = [], insert_sql = [], db = None\<rparr>"

text \<open>
  A SQLite server after \<open>Startup\<close>: the statements \<open>InitProcedures\<close> compiles for the type
  \<open>SQLite\<close>, and the opened database.
\<close>

definition sqlite_shim :: "database \<Rightarrow> SQLShim" where
  "sqlite_shim d =
     \<lparr>setup_sql = Sprintf rawSetup [''integer''], lookup_sql = rawLookup,
      insert_sql = rawInsert, db = Some d\<rparr>"

text \<open>An empty table on an engine that refuses nothing and reads every row.\<close>

definition empty_db :: database where
  "empty_db =
     \<lparr>kind = SQLite, barcodes = [], refuses = (\<lambda>stmt args. None),
      read_fails = (\<lambda>stmt args. None)\<rparr>"

text \<open>An empty table in a database file that cannot be written: the insert is refused.\<close>

definition readonly_db :: database where
  "readonly_db =
     \<lparr>kind = SQLite, barcodes = [],
      refuses = (\<lambda>stmt args. if stmt = rawInsert
                   then Some ''attempt to write a readonly database'' else None),
      read_fails = (\<lambda>stmt args. None)\<rparr>"

text \<open>A database that answers every statement with an error.\<close>

definition locked_db :: database where
  "locked_db =
     \<lparr>kind = SQLite, barcodes = [], refuses = (\<lambda>stmt args. Some ''database is locked''),
      read_fails = (\<lambda>stmt args. None)\<rparr>"

text \<open>A table that holds one row for the barcode 666.\<close>

definition stocked_db :: database where
  "stocked_db =
     \<lparr>kind = SQLite,
      barcodes = [\<lparr>row_id = 1, barcode = ''666'', isbn = ''ISBN1'', author = ''Author1'',
                   title = ''Title1''\<rparr>],
      refuses = (\<lambda>stmt args. None),
      read_fails = (\<lambda>stmt args. None)\<rparr>"

text \<open>
  The same table behind a connection that breaks before the first row of a result is read.
\<close>

definition broken_read_db :: database where
  "broken_read_db = stocked_db\<lparr>read_fails := (\<lambda>stmt args. Some (0, ''connection reset''))\<rparr>"

text \<open>
  A request for which the random generator draws 214304 and the response can be written.
\<close>

definition calm_env :: env where
  "calm_env =
     \<lparr>rand_source = 214304, alma_service = (\<lambda>key barcode'. DoFailed), writer_fails = False\<rparr>"

definition item_214304 :: BarcodeItem where
  "item_214304 =
     \<lparr>Barcode = ''666'', ISBN = ''ISBN214304'', Author = ''Author214304'',
      Title = ''Title214304''\<rparr>"

section \<open>Compiling the statements\<close>

lemma varReplace_rawLookup: "varReplace rawLookup ''$'' = Inr positionalLookup"
  by (simp add: varReplace_def rawLookup_def positionalLookup_def WriteString_def WriteRune_def
      fmt_d.simps digit_def)

lemma varReplace_rawInsert: "varReplace rawInsert ''$'' = Inr positionalInsert"
  by (simp add: varReplace_def rawInsert_def positionalInsert_def line_break_def WriteString_def
      WriteRune_def fmt_d.simps digit_def)

lemma InitProcedures_empty: "InitProcedures [] s = Fatal ''Database type is empty!'' None"
  by (simp add: InitProcedures_def)

lemma InitProcedures_mysql:
  "ToLower dbType = ''mysql'' \<Longrightarrow>
   InitProcedures dbType s =
     Returned (None, s\<lparr>setup_sql := Sprintf rawSetup [''int AUTO_INCREMENT''],
                        lookup_sql := rawLookup, insert_sql := rawInsert\<rparr>)"
  by (auto simp add: InitProcedures_def)

lemma InitProcedures_sqlite:
  "ToLower dbType = ''sqlite'' \<Longrightarrow>
   InitProcedures dbType s =
     Returned (None, s\<lparr>setup_sql := Sprintf rawSetup [''integer''],
                        lookup_sql := rawLookup, insert_sql := rawInsert\<rparr>)"
  by (auto simp add: InitProcedures_def)

lemma InitProcedures_postgres:
  "ToLower dbType = ''postgres'' \<Longrightarrow>
   InitProcedures dbType s =
     Returned (None, s\<lparr>setup_sql := Sprintf rawSetup [''int GENERATED BY DEFAULT AS IDENTITY''],
                        lookup_sql := positionalLookup, insert_sql := positionalInsert\<rparr>)"
  by (auto simp add: InitProcedures_def varReplace_rawLookup varReplace_rawInsert)

lemma InitProcedures_unknown:
  "dbType \<noteq> [] \<Longrightarrow> ToLower dbType \<noteq> ''mysql'' \<Longrightarrow> ToLower dbType \<noteq> ''sqlite'' \<Longrightarrow>
   ToLower dbType \<noteq> ''postgres'' \<Longrightarrow>
   InitProcedures dbType s = Returned (Some (UnknownDatabaseType dbType), s)"
  by (simp add: InitProcedures_def)

lemma ToLower_words:
  "ToLower ''postgres'' = ''postgres''" "ToLower ''mysql'' = ''mysql''"
  "ToLower ''SQLite'' = ''sqlite''" "ToLower ''oracle'' = ''oracle''"
  by (simp_all add: lower_byte_def)

subsection \<open>The statements an engine understands\<close>

lemma rawInsert_not_Lookup: "rawInsert \<noteq> rawLookup" "rawInsert \<noteq> positionalLookup"
  by (simp_all add: rawInsert_def rawLookup_def positionalLookup_def)

lemma positionalInsert_not_Lookup:
  "positionalInsert \<noteq> rawLookup" "positionalInsert \<noteq> positionalLookup"
  by (simp_all add: positionalInsert_def rawLookup_def positionalLookup_def)

lemma positional_not_raw:
  "rawLookup \<noteq> positionalLookup" "rawInsert \<noteq> positionalInsert"
  "rawLookup \<noteq> positionalInsert"
  by (simp_all add: rawLookup_def positionalLookup_def rawInsert_def positionalInsert_def)

lemma parse_sql_rawLookup: "e \<noteq> Postgres \<Longrightarrow> parse_sql e rawLookup = Some SelectByBarcode"
  by (simp add: parse_sql_def)

lemma parse_sql_rawInsert: "e \<noteq> Postgres \<Longrightarrow> parse_sql e rawInsert = Some InsertIfAbsent"
  by (simp add: parse_sql_def rawInsert_not_Lookup)

lemma parse_sql_positionalLookup:
  "e \<noteq> MySQL \<Longrightarrow> parse_sql e positionalLookup = Some SelectByBarcode"
  by (simp add: parse_sql_def)

lemma parse_sql_positionalInsert:
  "e \<noteq> MySQL \<Longrightarrow> parse_sql e positionalInsert = Some InsertIfAbsent"
  by (simp add: parse_sql_def positionalInsert_not_Lookup)

lemma parse_sql_Postgres_raw:
  "parse_sql Postgres rawLookup = None" "parse_sql Postgres rawInsert = None"
  by (simp_all add: parse_sql_def positional_not_raw rawInsert_not_Lookup)

subsection \<open>The rewriting of the markers\<close>

lemma pieces_not_Nil: "pieces src \<noteq> []"
  by (induction src) (auto split: list.splits)

lemma weave_Cons_char:
  "segs \<noteq> [] \<Longrightarrow>
   weave m n (case segs of [] \<Rightarrow> [[c]] | p # ps \<Rightarrow> (c # p) # ps) = c # weave m n segs"
proof -
  assume "segs \<noteq> []"
  then obtain q qs where segs: "segs = q # qs" by (cases segs) auto
  show ?thesis unfolding segs by (cases qs) auto
qed

lemma weave_marker: "segs \<noteq> [] \<Longrightarrow> weave m n ([] # segs) = m n @ weave m (Suc n) segs"
  by (cases segs) auto

lemma varReplace_loop_weave:
  "varReplace_loop src p n b = Inr (b @ weave (\<lambda>i. p @ fmt_d i) n (pieces src))"
proof (induction src arbitrary: n b)
  case Nil
  show ?case by simp
next
  case (Cons c cs)
  show ?case
  proof (cases "c = CHR ''?''")
    case True
    then show ?thesis
      using Cons.IH [of "Suc n" "b @ p @ fmt_d n"]
      by (simp add: WriteString_def weave_marker pieces_not_Nil)
  next
    case False
    then show ?thesis
      using Cons.IH [of n "b @ [c]"]
      by (simp add: WriteRune_def weave_Cons_char pieces_not_Nil)
  qed
qed

lemma pieces_weave_generic: "weave (\<lambda>i. ''?'') n (pieces src) = src"
proof (induction src arbitrary: n)
  case Nil
  show ?case by simp
next
  case (Cons c cs)
  show ?case
  proof (cases "c = CHR ''?''")
    case True
    then show ?thesis using Cons.IH [of "Suc n"] by (simp add: weave_marker pieces_not_Nil)
  next
    case False
    then show ?thesis using Cons.IH [of n] by (simp add: weave_Cons_char pieces_not_Nil)
  qed
qed

lemma pieces_no_marker: "seg \<in> set (pieces src) \<Longrightarrow> CHR ''?'' \<notin> set seg"
proof (induction src arbitrary: seg)
  case Nil
  then show ?case by simp
next
  case (Cons c cs)
  have "pieces cs \<noteq> []" by (rule pieces_not_Nil)
  then obtain q qs where q: "pieces cs = q # qs" by (cases "pieces cs") auto
  show ?case
  proof (cases "c = CHR ''?''")
    case True
    with Cons show ?thesis by auto
  next
    case False
    with Cons.prems q have "seg = c # q \<or> seg \<in> set qs" by simp
    then show ?thesis
      using Cons.IH [of q] Cons.IH [of seg] q False by auto
  qed
qed

lemma digit_not_marker: "d < 10 \<Longrightarrow> digit d \<noteq> CHR ''?''"
proof -
  assume "d < 10"
  then have "d \<in> {0, 1, 2, 3, 4, 5, 6, 7, 8, 9}" by auto
  then show ?thesis by (auto simp add: digit_def)
qed

lemma fmt_d_no_marker: "CHR ''?'' \<notin> set (fmt_d n)"
proof (induction n rule: fmt_d.induct)
  case (1 n)
  show ?case
  proof (cases "n < 10")
    case True
    then show ?thesis using digit_not_marker [of n] by (auto simp add: fmt_d.simps [of n])
  next
    case False
    have "n mod 10 < 10" by simp
    then have "digit (n mod 10) \<noteq> CHR ''?''" by (rule digit_not_marker)
    with False "1.IH" show ?thesis by (auto simp add: fmt_d.simps [of n])
  qed
qed

lemma weave_no_marker:
  "(\<And>seg. seg \<in> set segs \<Longrightarrow> c \<notin> set seg) \<Longrightarrow> (\<And>i. c \<notin> set (m i)) \<Longrightarrow>
   c \<notin> set (weave m n segs)"
  by (induction m n segs rule: weave.induct) auto

lemma varReplace_weave: "varReplace src p = Inr (weave (\<lambda>i. p @ fmt_d i) 1 (pieces src))"
  by (simp add: varReplace_def varReplace_loop_weave)

lemma varReplace_no_marker:
  assumes "CHR ''?'' \<notin> set p"
  shows "CHR ''?'' \<notin> set (weave (\<lambda>i. p @ fmt_d i) 1 (pieces src))"
  by (rule weave_no_marker) (auto simp add: pieces_no_marker fmt_d_no_marker assms)

lemma Sprintf_rawSetup_no_verb:
  "CHR ''%'' \<notin> set (Sprintf rawSetup [''int AUTO_INCREMENT''])"
  "CHR ''%'' \<notin> set (Sprintf rawSetup [''integer''])"
  "CHR ''%'' \<notin> set (Sprintf rawSetup [''int GENERATED BY DEFAULT AS IDENTITY''])"
  by (simp_all add: rawSetup_def line_break_def)

text \<open>
  C6. For each of the three supported database types (compared in lower case) the
  compilation succeeds and leaves no placeholder open: the lookup and the insert statement
  are statements the engine of that type understands, and the create-table statement has
  its \<open>%s\<close> filled in. For \<open>postgres\<close>, which does not understand the templates as they
  are, the two statements are the templates with every \<open>?\<close> replaced: for every text, the
  result of \<open>varReplace\<close> has the pieces of the text between its \<open>?\<close> marks, joined by
  \<open>$1\<close>, \<open>$2\<close>, ... in this order from the left, and holds no \<open>?\<close>. For \<open>mysql\<close> and
  \<open>sqlite\<close>, whose own marker is \<open>?\<close>, the two statements are the templates unchanged.
\<close>

theorem InitProcedures_resolves_placeholders:
  "(ToLower dbType = ''postgres'' \<longrightarrow>
      (\<exists>s'. InitProcedures dbType s = Returned (None, s') \<and>
            varReplace rawLookup ''$'' = Inr (lookup_sql s') \<and>
            varReplace rawInsert ''$'' = Inr (insert_sql s') \<and>
            lookup_sql s' = ''SELECT isbn,author,title FROM barcodes WHERE barcode=($1);'' \<and>
            CHR ''?'' \<notin> set (lookup_sql s') \<and> CHR ''?'' \<notin> set (insert_sql s') \<and>
            CHR ''%'' \<notin> set (setup_sql s') \<and>
            parse_sql Postgres (lookup_sql s') = Some SelectByBarcode \<and>
            parse_sql Postgres (insert_sql s') = Some InsertIfAbsent)) \<and>
   (ToLower dbType = ''mysql'' \<or> ToLower dbType = ''sqlite'' \<longrightarrow>
      (\<exists>s'. InitProcedures dbType s = Returned (None, s') \<and>
            lookup_sql s' = rawLookup \<and> insert_sql s' = rawInsert \<and>
            CHR ''%'' \<notin> set (setup_sql s') \<and>
            parse_sql MySQL (lookup_sql s') = Some SelectByBarcode \<and>
            parse_sql MySQL (insert_sql s') = Some InsertIfAbsent \<and>
            parse_sql SQLite (lookup_sql s') = Some SelectByBarcode \<and>
            parse_sql SQLite (insert_sql s') = Some InsertIfAbsent)) \<and>
   parse_sql Postgres rawLookup = None \<and> parse_sql Postgres rawInsert = None \<and>
   varReplace src ''$'' = Inr (weave (\<lambda>n. ''$'' @ fmt_d n) 1 (pieces src)) \<and>
   weave (\<lambda>n. ''?'') 1 (pieces src) = src \<and>
   (\<forall>seg \<in> set (pieces src). CHR ''?'' \<notin> set seg) \<and>
   CHR ''?'' \<notin> set (weave (\<lambda>n. ''$'' @ fmt_d n) 1 (pieces src))"
proof (intro conjI impI ballI)
  assume pg: "ToLower dbType = ''postgres''"
  let ?s' = "s\<lparr>setup_sql := Sprintf rawSetup [''int GENERATED BY DEFAULT AS IDENTITY''],
               lookup_sql := positionalLookup, insert_sql := positionalInsert\<rparr>"
  show "\<exists>s'. InitProcedures dbType s = Returned (None, s') \<and>
            varReplace rawLookup ''$'' = Inr (lookup_sql s') \<and>
            varReplace rawInsert ''$'' = Inr (insert_sql s') \<and>
            lookup_sql s' = ''SELECT isbn,author,title FROM barcodes WHERE barcode=($1);'' \<and>
            CHR ''?'' \<notin> set (lookup_sql s') \<and> CHR ''?'' \<notin> set (insert_sql s') \<and>
            CHR ''%'' \<notin> set (setup_sql s') \<and>
            parse_sql Postgres (lookup_sql s') = Some SelectByBarcode \<and>
            parse_sql Postgres (insert_sql s') = Some InsertIfAbsent"
  proof (intro exI [of _ ?s'] conjI)
    show "InitProcedures dbType s = Returned (None, ?s')"
      using pg by (rule InitProcedures_postgres)
    show "varReplace rawLookup ''$'' = Inr (lookup_sql ?s')"
      by (simp add: varReplace_rawLookup)
    show "varReplace rawInsert ''$'' = Inr (insert_sql ?s')"
      by (simp add: varReplace_rawInsert)
    show "lookup_sql ?s' = ''SELECT isbn,author,title FROM barcodes WHERE barcode=($1);''"
      by (simp add: positionalLookup_def)
    show "CHR ''?'' \<notin> set (lookup_sql ?s')"
      by (simp add: positionalLookup_def)
    show "CHR ''?'' \<notin> set (insert_sql ?s')"
      by (simp add: positionalInsert_def line_break_def)
    show "CHR ''%'' \<notin> set (setup_sql ?s')"
      by (simp add: Sprintf_rawSetup_no_verb)
    show "parse_sql Postgres (lookup_sql ?s') = Some SelectByBarcode"
      by (simp add: parse_sql_positionalLookup)
    show "parse_sql Postgres (insert_sql ?s') = Some InsertIfAbsent"
      by (simp add: parse_sql_positionalInsert)
  qed
next
  assume "ToLower dbType = ''mysql'' \<or> ToLower dbType = ''sqlite''"
  then show "\<exists>s'. InitProcedures dbType s = Returned (None, s') \<and>
            lookup_sql s' = rawLookup \<and> insert_sql s' = rawInsert \<and>
            CHR ''%'' \<notin> set (setup_sql s') \<and>
            parse_sql MySQL (lookup_sql s') = Some SelectByBarcode \<and>
            parse_sql MySQL (insert_sql s') = Some InsertIfAbsent \<and>
            parse_sql SQLite (lookup_sql s') = Some SelectByBarcode \<and>
            parse_sql SQLite (insert_sql s') = Some InsertIfAbsent"
  proof
    assume "ToLower dbType = ''mysql''"
    then show ?thesis
      by (simp add: InitProcedures_mysql Sprintf_rawSetup_no_verb parse_sql_rawLookup
          parse_sql_rawInsert)
  next
    assume "ToLower dbType = ''sqlite''"
    then show ?thesis
      by (simp add: InitProcedures_sqlite Sprintf_rawSetup_no_verb parse_sql_rawLookup
          parse_sql_rawInsert)
  qed
next
  show "parse_sql Postgres rawLookup = None"
    by (rule parse_sql_Postgres_raw)
next
  show "parse_sql Postgres rawInsert = None"
    by (rule parse_sql_Postgres_raw)
next
  show "varReplace src ''$'' = Inr (weave (\<lambda>n. ''$'' @ fmt_d n) 1 (pieces src))"
    by (rule varReplace_weave)
next
  show "weave (\<lambda>n. ''?'') 1 (pieces src) = src"
    by (rule pieces_weave_generic)
next
  fix seg
  assume "seg \<in> set (pieces src)"
  then show "CHR ''?'' \<notin> set seg" by (rule pieces_no_marker)
next
  show "CHR ''?'' \<notin> set (weave (\<lambda>n. ''$'' @ fmt_d n) 1 (pieces src))"
    by (rule varReplace_no_marker) simp
qed

text \<open>
  C6 at the types \<open>postgres\<close> and \<open>SQLite\<close> (the word \<open>SQLiteServer.Startup\<close> passes) and
  at the lookup template.
\<close>

theorem InitProcedures_resolves_placeholders_witness:
  "(\<exists>s'. InitProcedures ''postgres'' zero_shim = Returned (None, s') \<and>
         lookup_sql s' = ''SELECT isbn,author,title FROM barcodes WHERE barcode=($1);'' \<and>
         CHR ''?'' \<notin> set (insert_sql s')) \<and>
   (\<exists>s'. InitProcedures ''SQLite'' zero_shim = Returned (None, s') \<and>
         lookup_sql s' = rawLookup \<and> insert_sql s' = rawInsert) \<and>
   pieces rawLookup = [''SELECT isbn,author,title FROM barcodes WHERE barcode=('', '');''] \<and>
   varReplace rawLookup ''$'' =
     Inr ''SELECT isbn,author,title FROM barcodes WHERE barcode=($1);''"
proof -
  have pg: "ToLower ''postgres'' = ''postgres''"
    by (rule ToLower_words)
  have lite: "ToLower ''SQLite'' = ''sqlite'' "
    by (rule ToLower_words)
  have pcs: "pieces rawLookup = [''SELECT isbn,author,title FROM barcodes WHERE barcode=('', '');'']"
    by (simp add: rawLookup_def)
  have one: "fmt_d (Suc 0) = ''1''"
    by (simp add: fmt_d.simps digit_def)
  note t1 = InitProcedures_resolves_placeholders [of "''postgres''" zero_shim rawLookup]
  note t2 = InitProcedures_resolves_placeholders [of "''SQLite''" zero_shim rawLookup]
  from t1 [THEN conjunct1, rule_format, OF pg]
  obtain s' where "InitProcedures ''postgres'' zero_shim = Returned (None, s')"
    and "lookup_sql s' = ''SELECT isbn,author,title FROM barcodes WHERE barcode=($1);''"
    and "CHR ''?'' \<notin> set (insert_sql s')"
    by (elim exE conjE)
  then have a: "\<exists>s'. InitProcedures ''postgres'' zero_shim = Returned (None, s') \<and>
         lookup_sql s' = ''SELECT isbn,author,title FROM barcodes WHERE barcode=($1);'' \<and>
         CHR ''?'' \<notin> set (insert_sql s')"
    by (intro exI [of _ s'] conjI)
  from t2 [THEN conjunct2, THEN conjunct1, rule_format, OF disjI2, OF lite]
  obtain s'' where "InitProcedures ''SQLite'' zero_shim = Returned (None, s'')"
    and "lookup_sql s'' = rawLookup" and "insert_sql s'' = rawInsert"
    by (elim exE conjE)
  then have b: "\<exists>s'. InitProcedures ''SQLite'' zero_shim = Returned (None, s') \<and>
         lookup_sql s' = rawLookup \<and> insert_sql s' = rawInsert"
    by (intro exI [of _ s''] conjI)
  have w: "weave (\<lambda>n. ''$'' @ fmt_d n) 1 (pieces rawLookup) =
     ''SELECT isbn,author,title FROM barcodes WHERE barcode=($1);''"
    by (simp add: pcs one)
  have c: "varReplace rawLookup ''$'' =
     Inr ''SELECT isbn,author,title FROM barcodes WHERE barcode=($1);''"
    using t1 [THEN conjunct2, THEN conjunct2, THEN conjunct2, THEN conjunct2, THEN conjunct1]
    unfolding w .
  show ?thesis
    by (intro conjI) (rule a, rule b, rule pcs, rule c)
qed

text \<open>
  C7. The specification has a returned error for every type outside the three. The empty
  type is outside the three and ends the process instead.
\<close>

theorem InitProcedures_empty_type_counterexample:
  "ToLower [] \<notin> {''mysql'', ''postgres'', ''sqlite''} \<and>
   InitProcedures [] zero_shim = Fatal ''Database type is empty!'' None \<and>
   InitProcedures [] zero_shim \<noteq> Returned (Some (UnknownDatabaseType []), zero_shim)"
  by (simp add: InitProcedures_empty)

text \<open>
  C7, as the code has it. A type that is not empty and whose lower case is none of
  \<open>mysql\<close>, \<open>postgres\<close>, \<open>sqlite\<close> makes \<open>InitProcedures\<close> return the error for an unknown
  database type and leave the shim as it was: none of the three statements is set. The
  empty type ends the process.
\<close>

theorem InitProcedures_unknown_type:
  "(dbType \<noteq> [] \<and> ToLower dbType \<notin> {''mysql'', ''postgres'', ''sqlite''} \<longrightarrow>
      InitProcedures dbType s = Returned (Some (UnknownDatabaseType dbType), s)) \<and>
   (dbType = [] \<longrightarrow> InitProcedures dbType s = Fatal ''Database type is empty!'' None)"
  by (simp add: InitProcedures_unknown InitProcedures_empty)

text \<open>C7 at the type \<open>oracle\<close> and the zero value of the shim.\<close>

theorem InitProcedures_unknown_type_witness:
  "InitProcedures ''oracle'' zero_shim = Returned (Some (UnknownDatabaseType ''oracle''), zero_shim) \<and>
   setup_sql zero_shim = [] \<and> lookup_sql zero_shim = [] \<and> insert_sql zero_shim = []"
proof -
  have "ToLower ''oracle'' \<notin> {''mysql'', ''postgres'', ''sqlite''}"
    by (simp add: lower_byte_def)
  with InitProcedures_unknown_type [of "''oracle''" zero_shim]
  have "InitProcedures ''oracle'' zero_shim = Returned (Some (UnknownDatabaseType ''oracle''), zero_shim)"
    by simp
  then show ?thesis by (simp add: zero_shim_def)
qed

text \<open>
  C9. What a run of \<open>InitProcedures\<close> yields (the statements, the error or the end of the
  process) is a function of the database type alone: two runs on the same type agree,
  whatever the shims they start from hold, the database handle included.
\<close>

theorem InitProcedures_deterministic:
  "compiled (InitProcedures dbType s1) = compiled (InitProcedures dbType s2)"
proof -
  consider "dbType = []"
    | "ToLower dbType = ''mysql''" | "ToLower dbType = ''sqlite''"
    | "ToLower dbType = ''postgres''"
    | "dbType \<noteq> []" "ToLower dbType \<noteq> ''mysql''" "ToLower dbType \<noteq> ''sqlite''"
      "ToLower dbType \<noteq> ''postgres''"
    by blast
  then show ?thesis
  proof cases
    case 1
    then show ?thesis by (simp add: InitProcedures_empty)
  next
    case 2
    then show ?thesis by (simp add: InitProcedures_mysql compiled_def)
  next
    case 3
    then show ?thesis by (simp add: InitProcedures_sqlite compiled_def)
  next
    case 4
    then show ?thesis by (simp add: InitProcedures_postgres compiled_def)
  next
    case 5
    then show ?thesis by (simp add: InitProcedures_unknown compiled_def)
  qed
qed

section \<open>Lookup and store on the shim\<close>



lemma db_Query_Inr:
  assumes "db_Query d stmt [k] = Inr res"
  shows "\<exists>n. unread res = take n (map columns (filter (\<lambda>r. barcode r = k) (barcodes d)))"
proof (cases "read_fails d stmt [k]")
  case None
  with assms have "unread res = map columns (filter (\<lambda>r. barcode r = k) (barcodes d))"
    by (auto simp add: db_Query_def Let_def split: option.splits statement.splits if_splits)
  then have "unread res =
      take (length (barcodes d)) (map columns (filter (\<lambda>r. barcode r = k) (barcodes d)))"
    by simp
  then show ?thesis ..
next
  case (Some a)
  obtain n msg where "a = (n, msg)" by (cases a)
  with Some assms
  have "unread res = take n (map columns (filter (\<lambda>r. barcode r = k) (barcodes d)))"
    by (auto simp add: db_Query_def Let_def split: option.splits statement.splits if_splits)
  then show ?thesis ..
qed

lemma Next_of_query:
  assumes "db_Query d stmt [k] = Inr res" and "Next res = Some (cols, rest)"
  shows "\<exists>r rs. filter (\<lambda>r. barcode r = k) (barcodes d) = r # rs \<and> cols = columns r"
proof -
  from db_Query_Inr [OF assms(1)] obtain n
    where n: "unread res = take n (map columns (filter (\<lambda>r. barcode r = k) (barcodes d)))" ..
  from assms(2) obtain more where more: "unread res = cols # more"
    by (auto simp add: Next_def split: list.splits)
  show ?thesis
  proof (cases "filter (\<lambda>r. barcode r = k) (barcodes d)")
    case Nil
    with n more show ?thesis by simp
  next
    case (Cons r rs)
    with n more have "cols = columns r" by (cases n) auto
    with Cons show ?thesis by simp
  qed
qed

lemma Scan_columns: "Scan (columns r) = Inr (isbn r, author r, title r)"
  by (simp add: Scan_def columns_def)




text \<open>
  C8. With an empty barcode both calls on the shim end the process: \<open>Lookup\<close> and \<open>Store\<close>
  reach \<open>log.Fatalln\<close> before any statement is sent, and so do the three SQL servers, which
  call the shim first.
\<close>

theorem empty_barcode_is_fatal:
  "SQLShim_Lookup s [] =
     Fatal (if db s = None then ''Database is nil!'' else ''Empty barcode!'') None \<and>
   SQLShim_Store s (Some (item\<lparr>Barcode := []\<rparr>)) =
     Fatal (if db s = None then ''Database is nil!'' else ''Barcode is empty!'') None \<and>
   aborts (Lookup e (SQLiteServer s) []) \<and>
   aborts (Lookup e (PostgresServer s) []) \<and>
   aborts (Lookup e (MySQLServer s) []) \<and>
   aborts (Store (SQLiteServer s) (Some (item\<lparr>Barcode := []\<rparr>))) \<and>
   aborts (Store (PostgresServer s) (Some (item\<lparr>Barcode := []\<rparr>))) \<and>
   aborts (Store (MySQLServer s) (Some (item\<lparr>Barcode := []\<rparr>)))"
proof -
  have lk: "SQLShim_Lookup s [] =
     Fatal (if db s = None then ''Database is nil!'' else ''Empty barcode!'') None"
    by (simp add: SQLShim_Lookup_def split: option.splits)
  have st: "SQLShim_Store s (Some (item\<lparr>Barcode := []\<rparr>)) =
     Fatal (if db s = None then ''Database is nil!'' else ''Barcode is empty!'') None"
    by (simp add: SQLShim_Store_def split: option.splits)
  show ?thesis
    by (simp add: lk st SQLiteServer_Lookup_def PostgresServer_Lookup_def MySQLServer_Lookup_def
        SQLiteServer_Store_def PostgresServer_Store_def MySQLServer_Store_def)
qed

lemma SQLShim_Lookup_Some:
  assumes "SQLShim_Lookup s k = Returned (Inr (Some item))"
  shows "k \<noteq> [] \<and> (\<exists>d. db s = Some d \<and>
           (case filter (\<lambda>r. barcode r = k) (barcodes d) of
              [] \<Rightarrow> False
            | r # _ \<Rightarrow> item = \<lparr>Barcode = k, ISBN = isbn r, Author = author r,
                                 Title = title r\<rparr>))"
proof -
  from assms obtain d where d: "db s = Some d" and k: "k \<noteq> []"
    by (auto simp add: SQLShim_Lookup_def split: option.splits if_splits)
  from assms d k obtain res where q: "db_Query d (lookup_sql s) [k] = Inr res"
    by (auto simp add: SQLShim_Lookup_def split: sum.splits)
  from assms d k q obtain cols rest where nx: "Next res = Some (cols, rest)"
    by (auto simp add: SQLShim_Lookup_def split: option.splits)
  from Next_of_query [OF q nx] obtain r rs
    where found: "filter (\<lambda>r. barcode r = k) (barcodes d) = r # rs" and cols: "cols = columns r"
    by auto
  from assms d k q nx cols
  have "item = \<lparr>Barcode = k, ISBN = isbn r, Author = author r, Title = title r\<rparr>"
    by (simp add: SQLShim_Lookup_def Scan_columns)
  with d k found show ?thesis by simp
qed

lemma SQLShim_Lookup_Barcode:
  assumes "SQLShim_Lookup s k = Returned (Inr (Some item))"
  shows "Barcode item = k"
  using assms
  by (auto simp add: SQLShim_Lookup_def Let_def
      split: option.splits if_splits sum.splits prod.splits)

lemma Lookup_Barcode:
  assumes "Lookup e srv k = Returned (Some item)"
  shows "Barcode item = k"
proof (cases srv)
  case (SQLiteServer shim)
  with assms have "SQLShim_Lookup shim k = Returned (Inr (Some item))"
    by (auto simp add: SQLiteServer_Lookup_def boom_def split: outcome.splits sum.splits)
  then show ?thesis by (rule SQLShim_Lookup_Barcode)
next
  case (PostgresServer shim)
  with assms have "SQLShim_Lookup shim k = Returned (Inr (Some item))"
    by (auto simp add: PostgresServer_Lookup_def boom_def split: outcome.splits sum.splits)
  then show ?thesis by (rule SQLShim_Lookup_Barcode)
next
  case (MySQLServer shim)
  with assms have "SQLShim_Lookup shim k = Returned (Inr (Some item))"
    by (auto simp add: MySQLServer_Lookup_def boom_def split: outcome.splits sum.splits)
  then show ?thesis by (rule SQLShim_Lookup_Barcode)
next
  case RandomServer
  with assms show ?thesis
    by (auto simp add: RandomServer_Lookup_def Let_def)
next
  case (AlmaServer key)
  with assms show ?thesis
    by (auto simp add: AlmaServer_Lookup_def
        split: alma_reply.splits if_splits option.splits bib_data.splits)
qed

text \<open>
  C10. A lookup on the shim that returns an item was given a barcode that is not empty,
  and the item has that barcode as its key and the three attributes of the first row of
  the table that matches it. Every server, the random one included, returns items whose
  key is the barcode it was asked for.
\<close>

theorem Lookup_returns_queried_barcode:
  "(SQLShim_Lookup s k = Returned (Inr (Some item)) \<longrightarrow>
      k \<noteq> [] \<and> Barcode item = k \<and>
      (\<exists>d. db s = Some d \<and>
           (case filter (\<lambda>r. barcode r = k) (barcodes d) of
              [] \<Rightarrow> False
            | r # _ \<Rightarrow> item = \<lparr>Barcode = k, ISBN = isbn r, Author = author r,
                                 Title = title r\<rparr>))) \<and>
   (Lookup e srv k = Returned (Some item') \<longrightarrow> Barcode item' = k)"
proof (intro conjI impI)
  assume a: "SQLShim_Lookup s k = Returned (Inr (Some item))"
  from SQLShim_Lookup_Some [OF a] show "k \<noteq> []" by simp
  from a show "Barcode item = k" by (rule SQLShim_Lookup_Barcode)
  from SQLShim_Lookup_Some [OF a]
  show "\<exists>d. db s = Some d \<and>
           (case filter (\<lambda>r. barcode r = k) (barcodes d) of
              [] \<Rightarrow> False
            | r # _ \<Rightarrow> item = \<lparr>Barcode = k, ISBN = isbn r, Author = author r,
                                 Title = title r\<rparr>)"
    by simp
next
  assume "Lookup e srv k = Returned (Some item')"
  then show "Barcode item' = k" by (rule Lookup_Barcode)
qed

text \<open>C10 at the SQLite table that holds the barcode 666 and at the random server.\<close>

theorem Lookup_returns_queried_barcode_witness:
  "SQLShim_Lookup (sqlite_shim stocked_db) ''666'' =
     Returned (Inr (Some \<lparr>Barcode = ''666'', ISBN = ''ISBN1'', Author = ''Author1'',
                           Title = ''Title1''\<rparr>)) \<and>
   Lookup calm_env RandomServer ''666'' = Returned (Some item_214304) \<and>
   Barcode item_214304 = ''666''"
proof -
  let ?item = "\<lparr>Barcode = ''666'', ISBN = ''ISBN1'', Author = ''Author1'', Title = ''Title1''\<rparr>"
  have a: "SQLShim_Lookup (sqlite_shim stocked_db) ''666'' = Returned (Inr (Some ?item))"
    by (simp add: SQLShim_Lookup_def sqlite_shim_def stocked_db_def db_Query_def Next_def
        parse_sql_rawLookup columns_def Scan_def)
  have b: "Lookup calm_env RandomServer ''666'' = Returned (Some item_214304)"
    by (simp add: RandomServer_Lookup_def Intn_def calm_env_def item_214304_def fmt_d.simps
        digit_def)
  note t = Lookup_returns_queried_barcode
    [of "sqlite_shim stocked_db" "''666''" ?item calm_env RandomServer item_214304]
  from t [THEN conjunct2, rule_format, OF b] have "Barcode item_214304 = ''666''" .
  with a b show ?thesis by (intro conjI)
qed

section \<open>The handler\<close>

lemma RandomServer_Lookup_666:
  "RandomServer_Lookup calm_env ''666'' = Returned (Some item_214304)"
  by (simp add: RandomServer_Lookup_def Intn_def calm_env_def item_214304_def fmt_d.simps
      digit_def)

lemma SQLiteServer_Lookup_empty:
  "SQLiteServer_Lookup (sqlite_shim empty_db) ''666'' = Returned None"
  by (simp add: SQLiteServer_Lookup_def SQLShim_Lookup_def sqlite_shim_def empty_db_def
      db_Query_def Next_def parse_sql_rawLookup boom_def)

lemma SQLiteServer_Lookup_readonly:
  "SQLiteServer_Lookup (sqlite_shim readonly_db) ''666'' = Returned None"
  by (simp add: SQLiteServer_Lookup_def SQLShim_Lookup_def sqlite_shim_def readonly_db_def
      db_Query_def Next_def parse_sql_rawLookup boom_def rawInsert_not_Lookup [symmetric])

lemma SQLiteServer_Lookup_stocked:
  "SQLiteServer_Lookup (sqlite_shim stocked_db) ''666'' =
     Returned (Some \<lparr>Barcode = ''666'', ISBN = ''ISBN1'', Author = ''Author1'',
                      Title = ''Title1''\<rparr>)"
  by (simp add: SQLiteServer_Lookup_def SQLShim_Lookup_def sqlite_shim_def stocked_db_def
      db_Query_def Next_def parse_sql_rawLookup boom_def columns_def Scan_def)

lemma SQLiteServer_Lookup_locked:
  "SQLiteServer_Lookup (sqlite_shim locked_db) ''666'' =
     Fatal ''Unable to lookup item'' (Some (DriverError ''database is locked''))"
  by (simp add: SQLiteServer_Lookup_def SQLShim_Lookup_def sqlite_shim_def locked_db_def
      db_Query_def boom_def)

lemma SQLShim_Store_readonly:
  "SQLShim_Store (sqlite_shim readonly_db) (Some item_214304) =
     Returned (Some (DriverError ''attempt to write a readonly database''),
               sqlite_shim readonly_db)"
  by (simp add: SQLShim_Store_def sqlite_shim_def readonly_db_def db_Exec_def item_214304_def)

lemma SQLiteServer_Store_readonly:
  "SQLiteServer_Store (sqlite_shim readonly_db) (Some item_214304) =
     Fatal ''Unable to store item'' (Some (DriverError ''attempt to write a readonly database''))"
  by (simp add: SQLiteServer_Store_def SQLShim_Store_readonly boom_def)

lemma SQLiteServer_Store_empty:
  "SQLiteServer_Store (sqlite_shim empty_db) (Some item_214304) =
     Returned (sqlite_shim (empty_db\<lparr>barcodes :=
       [\<lparr>row_id = 1, barcode = ''666'', isbn = ''ISBN214304'', author = ''Author214304'',
         title = ''Title214304''\<rparr>]\<rparr>))"
  by (simp add: SQLiteServer_Store_def SQLShim_Store_def sqlite_shim_def empty_db_def
      db_Exec_def parse_sql_rawInsert item_214304_def fresh_id_def boom_def)

text \<open>
  An error met while the rows are read, on the table that holds the barcode 666:
  \<open>rows.Next\<close> is false, \<open>rows.Err\<close> is not read, and the lookup of the shim returns no
  item and no error. The server returns no item, and the handler goes on to the remote
  server.
\<close>

lemma SQLShim_Lookup_broken_read:
  "db_Query broken_read_db (lookup_sql (sqlite_shim broken_read_db)) [''666''] =
     Inr \<lparr>unread = [], Err = Some ''connection reset''\<rparr> \<and>
   SQLShim_Lookup (sqlite_shim broken_read_db) ''666'' = Returned (Inr None)"
  by (simp add: SQLShim_Lookup_def sqlite_shim_def broken_read_db_def stocked_db_def
      db_Query_def Next_def parse_sql_rawLookup)

lemma barcodeHandler_broken_read:
  "fst (barcodeHandler calm_env ''666'' (Some (SQLiteServer (sqlite_shim broken_read_db)))
          (Some RandomServer)) =
     [LocalLookup ''666'', RemoteLookup ''666'', LocalStore item_214304]"
proof -
  have "SQLiteServer_Lookup (sqlite_shim broken_read_db) ''666'' = Returned None"
    by (simp add: SQLiteServer_Lookup_def SQLShim_Lookup_broken_read boom_def)
  then show ?thesis
    by (simp add: barcodeHandler_def RandomServer_Lookup_666 split: outcome.splits)
qed

text \<open>
  C1. In one run of the handler the remote server is called at most once. Where it is
  called, the local server was given, the barcode is not empty, the local lookup returned
  no item, and the call comes second, right after the local lookup. Where the local lookup
  returns an item, the local lookup is the only call, and that item is written to the
  response (the process ends instead if the response cannot be written).
\<close>

theorem remote_called_at_most_once:
  "remote_calls (fst (barcodeHandler e k ls rs)) \<le> 1 \<and>
   (remote_calls (fst (barcodeHandler e k ls rs)) = 1 \<longrightarrow>
      (\<exists>l. ls = Some l \<and> k \<noteq> [] \<and> Lookup e l k = Returned None \<and>
           take 2 (fst (barcodeHandler e k ls rs)) = [LocalLookup k, RemoteLookup k])) \<and>
   (\<forall>l item. ls = Some l \<and> k \<noteq> [] \<and> Lookup e l k = Returned (Some item) \<longrightarrow>
      fst (barcodeHandler e k ls rs) = [LocalLookup k] \<and>
      remote_calls (fst (barcodeHandler e k ls rs)) = 0 \<and>
      snd (barcodeHandler e k ls rs) =
        (if writer_fails e then Fatal ''Unable to write to output'' None
         else Returned (Some item, Some l)))"
  by (auto simp add: barcodeHandler_def remote_calls_def write_result_def
      split: option.splits outcome.splits)

text \<open>
  C1 at the barcode 666 on a SQLite server that holds it: the stored item is written and the
  random server is not called. On a SQLite server with an empty table the random server is
  called once, second.
\<close>

theorem remote_called_at_most_once_witness:
  "fst (barcodeHandler calm_env ''666'' (Some (SQLiteServer (sqlite_shim stocked_db)))
          (Some RandomServer)) = [LocalLookup ''666''] \<and>
   snd (barcodeHandler calm_env ''666'' (Some (SQLiteServer (sqlite_shim stocked_db)))
          (Some RandomServer)) =
     Returned (Some \<lparr>Barcode = ''666'', ISBN = ''ISBN1'', Author = ''Author1'',
                      Title = ''Title1''\<rparr>, Some (SQLiteServer (sqlite_shim stocked_db))) \<and>
   remote_calls (fst (barcodeHandler calm_env ''666''
     (Some (SQLiteServer (sqlite_shim empty_db))) (Some RandomServer))) = 1 \<and>
   take 2 (fst (barcodeHandler calm_env ''666''
     (Some (SQLiteServer (sqlite_shim empty_db))) (Some RandomServer))) =
     [LocalLookup ''666'', RemoteLookup ''666'']"
proof -
  let ?item = "\<lparr>Barcode = ''666'', ISBN = ''ISBN1'', Author = ''Author1'', Title = ''Title1''\<rparr>"
  let ?hit = "barcodeHandler calm_env ''666'' (Some (SQLiteServer (sqlite_shim stocked_db)))
          (Some RandomServer)"
  let ?miss = "barcodeHandler calm_env ''666'' (Some (SQLiteServer (sqlite_shim empty_db)))
          (Some RandomServer)"
  have found: "Lookup calm_env (SQLiteServer (sqlite_shim stocked_db)) ''666'' =
      Returned (Some ?item)"
    by (simp add: SQLiteServer_Lookup_stocked)
  have ok: "\<not> writer_fails calm_env"
    by (simp add: calm_env_def)
  have key: "''666'' \<noteq> []" by simp
  note hit = remote_called_at_most_once
    [of calm_env "''666''" "Some (SQLiteServer (sqlite_shim stocked_db))" "Some RandomServer"]
  from hit [THEN conjunct2, THEN conjunct2, rule_format, of "SQLiteServer (sqlite_shim stocked_db)" ?item]
    found key
  have a: "fst ?hit = [LocalLookup ''666'']"
    and b0: "snd ?hit = (if writer_fails calm_env then Fatal ''Unable to write to output'' None
         else Returned (Some ?item, Some (SQLiteServer (sqlite_shim stocked_db))))"
    by simp_all
  from b0 ok have b: "snd ?hit = Returned (Some ?item, Some (SQLiteServer (sqlite_shim stocked_db)))"
    by simp
  have once: "remote_calls (fst ?miss) = 1"
    by (simp add: barcodeHandler_def SQLiteServer_Lookup_empty RandomServer_Lookup_666
        SQLiteServer_Store_empty write_result_def remote_calls_def)
  note miss = remote_called_at_most_once
    [of calm_env "''666''" "Some (SQLiteServer (sqlite_shim empty_db))" "Some RandomServer"]
  from miss [THEN conjunct2, THEN conjunct1, rule_format, OF once]
  have c: "take 2 (fst ?miss) = [LocalLookup ''666'', RemoteLookup ''666'']"
    by (elim exE conjE)
  from a b once c show ?thesis by (intro conjI)
qed

text \<open>
  C2. The specification has a failing store not keep the record from the caller. On a
  SQLite server whose file cannot be written, the lookup misses, the random server
  answers, the store of the shim returns an error, and the process ends in \<open>boom\<close>: nothing
  is written to the response.
\<close>

theorem store_failure_ends_process_counterexample:
  "Lookup calm_env (SQLiteServer (sqlite_shim readonly_db)) ''666'' = Returned None \<and>
   Lookup calm_env RandomServer ''666'' = Returned (Some item_214304) \<and>
   SQLShim_Store (sqlite_shim readonly_db) (Some item_214304) =
     Returned (Some (DriverError ''attempt to write a readonly database''),
               sqlite_shim readonly_db) \<and>
   barcodeHandler calm_env ''666'' (Some (SQLiteServer (sqlite_shim readonly_db)))
     (Some RandomServer) =
     ([LocalLookup ''666'', RemoteLookup ''666'', LocalStore item_214304],
      Fatal ''Unable to store item'' (Some (DriverError ''attempt to write a readonly database'')))"
  by (simp add: barcodeHandler_def SQLiteServer_Lookup_readonly RandomServer_Lookup_666
      SQLiteServer_Store_readonly SQLShim_Store_readonly)

text \<open>
  C2, as the code has it. Where the local lookup misses and the remote lookup returns an
  item, the handler calls the local store once, with that item. If the store returns, the
  item is written to the response. If the store ends the process, so does the handler, and
  this is what the three SQL servers do with an error of the shim's store: \<open>boom\<close> logs the
  error and ends the process.
\<close>

theorem write_through_then_answer:
  assumes "k \<noteq> []"
    and "Lookup e l k = Returned None"
    and "Lookup e r k = Returned (Some item)"
  shows "barcodeHandler e k (Some l) (Some r) =
           ([LocalLookup k, RemoteLookup k, LocalStore item],
            (case Store l (Some item) of
               Fatal msg err \<Rightarrow> Fatal msg err
             | Returned l' \<Rightarrow>
                 if writer_fails e then Fatal ''Unable to write to output'' None
                 else Returned (Some item, Some l'))) \<and>
         (SQLShim_Store shim (Some item) = Returned (Some err, shim') \<longrightarrow>
            Store (SQLiteServer shim) (Some item) = Fatal ''Unable to store item'' (Some err) \<and>
            Store (PostgresServer shim) (Some item) = Fatal ''Unable to store item'' (Some err) \<and>
            Store (MySQLServer shim) (Some item) = Fatal ''Unable to store item'' (Some err))"
proof (intro conjI impI)
  show "barcodeHandler e k (Some l) (Some r) =
           ([LocalLookup k, RemoteLookup k, LocalStore item],
            (case Store l (Some item) of
               Fatal msg err \<Rightarrow> Fatal msg err
             | Returned l' \<Rightarrow>
                 if writer_fails e then Fatal ''Unable to write to output'' None
                 else Returned (Some item, Some l')))"
    using assms
    by (simp add: barcodeHandler_def write_result_def split: outcome.splits)
next
  assume failed: "SQLShim_Store shim (Some item) = Returned (Some err, shim')"
  show "Store (SQLiteServer shim) (Some item) = Fatal ''Unable to store item'' (Some err)"
    by (simp add: SQLiteServer_Store_def failed boom_def)
  show "Store (PostgresServer shim) (Some item) = Fatal ''Unable to store item'' (Some err)"
    by (simp add: PostgresServer_Store_def failed boom_def)
  show "Store (MySQLServer shim) (Some item) = Fatal ''Unable to store item'' (Some err)"
    by (simp add: MySQLServer_Store_def failed boom_def)
qed

text \<open>
  C2 at the barcode 666 on a SQLite server with an empty table that can be written: the item of
  the random server is stored and written to the response. With the file that cannot be
  written, the store of the server ends the process.
\<close>

theorem write_through_then_answer_witness:
  "barcodeHandler calm_env ''666'' (Some (SQLiteServer (sqlite_shim empty_db)))
     (Some RandomServer) =
     ([LocalLookup ''666'', RemoteLookup ''666'', LocalStore item_214304],
      Returned (Some item_214304,
        Some (SQLiteServer (sqlite_shim (empty_db\<lparr>barcodes :=
          [\<lparr>row_id = 1, barcode = ''666'', isbn = ''ISBN214304'', author = ''Author214304'',
            title = ''Title214304''\<rparr>]\<rparr>))))) \<and>
   Store (SQLiteServer (sqlite_shim readonly_db)) (Some item_214304) =
     Fatal ''Unable to store item'' (Some (DriverError ''attempt to write a readonly database''))"
proof -
  have key: "''666'' \<noteq> []" by simp
  have miss: "Lookup calm_env (SQLiteServer (sqlite_shim empty_db)) ''666'' = Returned None"
    by (simp add: SQLiteServer_Lookup_empty)
  have remote: "Lookup calm_env RandomServer ''666'' = Returned (Some item_214304)"
    by (simp add: RandomServer_Lookup_666)
  have ok: "\<not> writer_fails calm_env"
    by (simp add: calm_env_def)
  note t = write_through_then_answer [OF key miss remote, of "sqlite_shim readonly_db"
      "DriverError ''attempt to write a readonly database''" "sqlite_shim readonly_db"]
  from t [THEN conjunct1] ok
  have a: "barcodeHandler calm_env ''666'' (Some (SQLiteServer (sqlite_shim empty_db)))
     (Some RandomServer) =
     ([LocalLookup ''666'', RemoteLookup ''666'', LocalStore item_214304],
      Returned (Some item_214304,
        Some (SQLiteServer (sqlite_shim (empty_db\<lparr>barcodes :=
          [\<lparr>row_id = 1, barcode = ''666'', isbn = ''ISBN214304'', author = ''Author214304'',
            title = ''Title214304''\<rparr>]\<rparr>)))))"
    by (simp add: SQLiteServer_Store_empty)
  from t [THEN conjunct2, rule_format, OF SQLShim_Store_readonly, THEN conjunct1]
  have b: "Store (SQLiteServer (sqlite_shim readonly_db)) (Some item_214304) =
     Fatal ''Unable to store item'' (Some (DriverError ''attempt to write a readonly database''))" .
  from a b show ?thesis by (intro conjI)
qed

text \<open>
  C3. The specification has an error of the query never be fatal and the handler go on to
  the remote server. On a SQLite server whose database answers every statement with an
  error, \<open>db.Query\<close> returns the error, the process ends in \<open>boom\<close> and the random server,
  which would answer, is not called.
\<close>

theorem lookup_error_ends_process_counterexample:
  "db_Query locked_db (lookup_sql (sqlite_shim locked_db)) [''666''] =
     Inl (DriverError ''database is locked'') \<and>
   Lookup calm_env RandomServer ''666'' = Returned (Some item_214304) \<and>
   barcodeHandler calm_env ''666'' (Some (SQLiteServer (sqlite_shim locked_db)))
     (Some RandomServer) =
     ([LocalLookup ''666''],
      Fatal ''Unable to lookup item'' (Some (DriverError ''database is locked'')))"
proof (intro conjI)
  show "db_Query locked_db (lookup_sql (sqlite_shim locked_db)) [''666''] =
     Inl (DriverError ''database is locked'')"
    by (simp add: db_Query_def locked_db_def)
  show "Lookup calm_env RandomServer ''666'' = Returned (Some item_214304)"
    by (simp add: RandomServer_Lookup_666)
  show "barcodeHandler calm_env ''666'' (Some (SQLiteServer (sqlite_shim locked_db)))
     (Some RandomServer) =
     ([LocalLookup ''666''],
      Fatal ''Unable to lookup item'' (Some (DriverError ''database is locked'')))"
    by (simp add: barcodeHandler_def SQLiteServer_Lookup_locked)
qed

text \<open>
  C3, as the code has it. An error that the call of \<open>db.Query\<close> returns comes back from the
  shim's lookup as an error value, which is neither the answer \<open>absent\<close> nor the end of the
  process. Each of the three SQL servers hands it to \<open>boom\<close>, which logs it and ends the
  process; the handler then has called the local server only, and writes nothing. The
  statement is about the errors \<open>db.Query\<close> returns; it says nothing of an error met
  later, while the rows are read.
\<close>

theorem lookup_error_surfaced_then_fatal:
  assumes "db s = Some d" and "k \<noteq> []"
    and "db_Query d (lookup_sql s) [k] = Inl err"
  shows "SQLShim_Lookup s k = Returned (Inl err) \<and>
         SQLShim_Lookup s k \<noteq> Returned (Inr None) \<and>
         Lookup e (SQLiteServer s) k = Fatal ''Unable to lookup item'' (Some err) \<and>
         Lookup e (PostgresServer s) k = Fatal ''Unable to lookup item'' (Some err) \<and>
         Lookup e (MySQLServer s) k = Fatal ''Unable to lookup item'' (Some err) \<and>
         barcodeHandler e k (Some (SQLiteServer s)) rs =
           ([LocalLookup k], Fatal ''Unable to lookup item'' (Some err)) \<and>
         barcodeHandler e k (Some (PostgresServer s)) rs =
           ([LocalLookup k], Fatal ''Unable to lookup item'' (Some err)) \<and>
         barcodeHandler e k (Some (MySQLServer s)) rs =
           ([LocalLookup k], Fatal ''Unable to lookup item'' (Some err))"
proof -
  have shim: "SQLShim_Lookup s k = Returned (Inl err)"
    using assms by (simp add: SQLShim_Lookup_def)
  have a: "SQLiteServer_Lookup s k = Fatal ''Unable to lookup item'' (Some err)"
    by (simp add: SQLiteServer_Lookup_def shim boom_def)
  have b: "PostgresServer_Lookup s k = Fatal ''Unable to lookup item'' (Some err)"
    by (simp add: PostgresServer_Lookup_def shim boom_def)
  have c: "MySQLServer_Lookup s k = Fatal ''Unable to lookup item'' (Some err)"
    by (simp add: MySQLServer_Lookup_def shim boom_def)
  show ?thesis
    using assms(2) by (simp add: shim a b c barcodeHandler_def)
qed

text \<open>C3 at the barcode 666 and the database that answers every statement with an error.\<close>

theorem lookup_error_surfaced_then_fatal_witness:
  "SQLShim_Lookup (sqlite_shim locked_db) ''666'' =
     Returned (Inl (DriverError ''database is locked'')) \<and>
   Lookup calm_env (SQLiteServer (sqlite_shim locked_db)) ''666'' =
     Fatal ''Unable to lookup item'' (Some (DriverError ''database is locked'')) \<and>
   barcodeHandler calm_env ''666'' (Some (PostgresServer (sqlite_shim locked_db))) None =
     ([LocalLookup ''666''],
      Fatal ''Unable to lookup item'' (Some (DriverError ''database is locked'')))"
proof -
  have d: "db (sqlite_shim locked_db) = Some locked_db"
    by (simp add: sqlite_shim_def)
  have key: "''666'' \<noteq> []" by simp
  have q: "db_Query locked_db (lookup_sql (sqlite_shim locked_db)) [''666''] =
             Inl (DriverError ''database is locked'')"
    by (simp add: db_Query_def locked_db_def)
  note t = lookup_error_surfaced_then_fatal [OF d key q, of calm_env None]
  from t show ?thesis by (intro conjI) simp_all
qed

text \<open>
  C4. The specification has the handler still ask the remote server when there is no
  local server. With no local server and the random server as the remote one, which would
  answer, the handler calls no server and writes nothing.
\<close>

theorem no_local_server_counterexample:
  "Lookup calm_env RandomServer ''666'' = Returned (Some item_214304) \<and>
   barcodeHandler calm_env ''666'' None (Some RandomServer) = ([], Returned (None, None))"
  by (simp add: barcodeHandler_def RandomServer_Lookup_666)

text \<open>
  C4, as the code has it. Without a local server the handler returns at its guard: it
  calls neither server and writes nothing, whatever the barcode and the remote server.
\<close>

theorem no_local_server_returns_at_once:
  "barcodeHandler e k None rs = ([], Returned (None, None))"
  by (simp add: barcodeHandler_def)

end
